theory Spec2Isabelle
  imports Main "HOL-Library.Char_ord" "HOL-Library.List_Lexorder" "HOL-Library.Word"
begin

section \<open>Python values used by mental\_health.py\<close>

text \<open>
  The exceptions that the modelled statements can raise: a failed dictionary lookup
  (\<open>d[k]\<close>), a violated table constraint (\<open>sqlite3.IntegrityError\<close>), and a Python
  integer that is too large to be bound to a parameter of an SQL statement
  (\<open>OverflowError\<close>).
\<close>

datatype py_error = KeyError | IntegrityError | OverflowError

text \<open>\<open>range(start, stop)\<close> with step 1, and the membership test \<open>x in range(...)\<close>
  on an integer \<open>x\<close>.\<close>

record py_range =
  start :: int
  stop :: int

definition range_py :: "int \<Rightarrow> int \<Rightarrow> py_range" where
  "range_py a b = \<lparr>start = a, stop = b\<rparr>"

definition range_contains :: "py_range \<Rightarrow> int \<Rightarrow> bool" where
  "range_contains r x = (start r \<le> x \<and> x < stop r)"

text \<open>A dictionary built from key/value pairs in order (a later pair replaces an earlier
  one with the same key), and \<open>d[k]\<close>, which raises \<open>KeyError\<close> on a missing key.\<close>

definition py_dict :: "('k \<times> 'v) list \<Rightarrow> ('k \<rightharpoonup> 'v)" where
  "py_dict kvs = map_of (rev kvs)"

definition getitem :: "('k \<rightharpoonup> 'v) \<Rightarrow> 'k \<Rightarrow> py_error + 'v" where
  "getitem d k = (case d k of None \<Rightarrow> Inl KeyError | Some v \<Rightarrow> Inr v)"

text \<open>\<open>str(n)\<close> for an integer, as the f-strings format it.\<close>

fun str_nat :: "nat \<Rightarrow> string" where
  "str_nat n =
     (if n < 10 then [char_of (48 + n)]
      else str_nat (n div 10) @ [char_of (48 + n mod 10)])"

definition str_int :: "int \<Rightarrow> string" where
  "str_int i = (if i < 0 then CHR ''-'' # str_nat (nat (- i)) else str_nat (nat i))"

text \<open>Characters outside ASCII are written as their UTF-8 bytes.\<close>

definition emdash :: string where
  "emdash = [CHR 0xE2, CHR 0x80, CHR 0x94]"

definition telephone :: string where
  "telephone = [CHR 0xF0, CHR 0x9F, CHR 0x93, CHR 0x9E]"

definition writing_hand :: string where
  "writing_hand = [CHR 0xE2, CHR 0x9C, CHR 0x8D, CHR 0xEF, CHR 0xB8, CHR 0x8F]"

definition faces :: string where
  "faces = [CHR 0xF0, CHR 0x9F, CHR 0x98, CHR 0x8A, CHR 0xF0, CHR 0x9F, CHR 0x98, CHR 0x90,
            CHR 0xF0, CHR 0x9F, CHR 0x98, CHR 0x9F]"

definition memo :: string where
  "memo = [CHR 0xF0, CHR 0x9F, CHR 0x93, CHR 0x9D]"

definition nl :: string where
  "nl = [CHR 0x0A]"

section \<open>Configuration constants\<close>

definition indent16 :: string where
  "indent16 = replicate 16 CHR '' ''"

definition EMERGENCY_HELPLINE :: string where
  "EMERGENCY_HELPLINE =
     ''Please reach out for immediate help. You are not alone.'' @ nl @ nl @ nl @
     indent16 @ telephone @ '' National Suicide Prevention Lifeline (India): 9152987821'' @
       nl @ nl @ nl @
     indent16 @ telephone @ '' KIRAN Mental Health Helpline: 1800-599-0019'' @ nl @ nl @ nl @
     indent16 @ ''If you are in immediate danger, please call your local emergency services.''"

definition PHQ9_THRESHOLDS :: "string \<rightharpoonup> py_range" where
  "PHQ9_THRESHOLDS = py_dict
     [(''none_mild'', range_py 0 10),
      (''moderate'', range_py 10 15),
      (''moderately_severe'', range_py 15 20),
      (''severe'', range_py 20 100)]"

definition GAD7_THRESHOLDS :: "string \<rightharpoonup> py_range" where
  "GAD7_THRESHOLDS = py_dict
     [(''none_mild'', range_py 0 10),
      (''moderate'', range_py 10 15),
      (''severe'', range_py 15 22)]"

text \<open>The test \<open>total_score in THRESHOLDS[key]\<close>.\<close>

definition in_threshold :: "(string \<rightharpoonup> py_range) \<Rightarrow> string \<Rightarrow> int \<Rightarrow> py_error + bool" where
  "in_threshold thresholds key total_score =
     (case getitem thresholds key of
        Inl e \<Rightarrow> Inl e
      | Inr r \<Rightarrow> Inr (range_contains r total_score))"

section \<open>The database\<close>

text \<open>
  The four tables of \<open>init_db\<close> that the pages read and write. Every table has an
  \<open>INTEGER PRIMARY KEY AUTOINCREMENT\<close> column: \<open>seq\<close> is the largest id handed out so
  far and a new row gets \<open>seq + 1\<close>. A \<open>timestamp\<close> column holds the text that
  \<open>CURRENT_TIMESTAMP\<close> produced at the insertion; \<open>ORDER BY timestamp\<close> compares these
  texts bytewise.
\<close>

type_synonym timestamp = string

text \<open>
  \<open>st.session_state.user_id\<close> is assigned in \<open>main\<close> only: it is 0 for the moderator and
  otherwise the \<open>id\<close> of the row that \<open>login\<close> returned. Either way it is an integer as
  SQLite stores it, a signed 64-bit value, so user ids are 64-bit words. They are only
  stored and compared. (The ids that AUTOINCREMENT hands out are counted as \<open>seq + 1\<close>
  on plain integers.)
\<close>

type_synonym user_id = "64 word"

text \<open>
  The integers that a page computes or reads from a widget are Python integers without a
  bound. When such a value is bound to a \<open>?\<close> of an \<open>INSERT\<close>, \<open>sqlite3\<close> raises
  \<open>OverflowError\<close> unless it fits a signed 64-bit integer; nothing is inserted then.
\<close>

definition sqlite_int :: "int \<Rightarrow> bool" where
  "sqlite_int i = (- (2 ^ 63) \<le> i \<and> i < 2 ^ 63)"

record users_row =
  u_id :: int
  u_username :: string
  u_password :: string

record journal_row =
  j_id :: int
  j_user_id :: user_id
  j_timestamp :: timestamp
  j_entry_text :: string

record mood_row =
  m_id :: int
  m_user_id :: user_id
  m_timestamp :: timestamp
  m_mood_score :: int
  m_mood_notes :: string

record screening_row =
  s_id :: int
  s_user_id :: user_id
  s_test_type :: string
  s_timestamp :: timestamp
  s_score :: int
  s_category :: string

record 'r table =
  rows :: "'r list"
  seq :: int

record db =
  users :: "users_row table"
  journal_entries :: "journal_row table"
  mood_entries :: "mood_row table"
  screening_results :: "screening_row table"

definition empty_table :: "'r table" where
  "empty_table = \<lparr>rows = [], seq = 0\<rparr>"

definition init_db :: db where
  "init_db = \<lparr>users = empty_table, journal_entries = empty_table,
              mood_entries = empty_table, screening_results = empty_table\<rparr>"

text \<open>The constraint \<open>username TEXT NOT NULL UNIQUE\<close> as a property of a database.\<close>

definition users_unique :: "db \<Rightarrow> bool" where
  "users_unique d = distinct (map u_username (rows (users d)))"

text \<open>An \<open>INSERT\<close> that leaves the id to AUTOINCREMENT.\<close>

definition insert_row :: "(int \<Rightarrow> 'r) \<Rightarrow> 'r table \<Rightarrow> 'r table" where
  "insert_row mk t = \<lparr>rows = rows t @ [mk (seq t + 1)], seq = seq t + 1\<rparr>"

section \<open>Authentication helpers\<close>

text \<open>
  \<open>hash_password\<close> calls \<open>hashlib.sha256(password.encode()).hexdigest()\<close>. The digest
  function belongs to the Python library, so it is a parameter \<open>sha256\<close> of everything
  that hashes: what is proved holds for every digest function. The examples further down
  put the identity in its place.
\<close>

definition hash_password :: "(string \<Rightarrow> string) \<Rightarrow> string \<Rightarrow> string" where
  "hash_password sha256 password = sha256 password"

text \<open>\<open>INSERT INTO users (username, password)\<close>: the column \<open>username\<close> is \<open>UNIQUE\<close>.\<close>

definition insert_user :: "string \<Rightarrow> string \<Rightarrow> db \<Rightarrow> py_error + db" where
  "insert_user username pwhash d =
     (if username \<in> set (map u_username (rows (users d))) then Inl IntegrityError
      else Inr (d\<lparr>users := insert_row
                  (\<lambda>i. \<lparr>u_id = i, u_username = username, u_password = pwhash\<rparr>) (users d)\<rparr>))"

text \<open>\<open>signup\<close> returns \<open>True\<close> after the commit and \<open>False\<close> when the insertion raised
  \<open>IntegrityError\<close>; any other exception would propagate.\<close>

definition signup :: "(string \<Rightarrow> string) \<Rightarrow> string \<Rightarrow> string \<Rightarrow> db \<Rightarrow> py_error + bool \<times> db" where
  "signup sha256 username password d =
     (case insert_user username (hash_password sha256 password) d of
        Inr d' \<Rightarrow> Inr (True, d')
      | Inl IntegrityError \<Rightarrow> Inr (False, d)
      | Inl e \<Rightarrow> Inl e)"

text \<open>\<open>login\<close>: \<open>fetchone\<close> gives the first row of the \<open>SELECT\<close>, or \<open>None\<close>.\<close>

definition login :: "(string \<Rightarrow> string) \<Rightarrow> string \<Rightarrow> string \<Rightarrow> db \<Rightarrow> users_row option" where
  "login sha256 username password d =
     find (\<lambda>r. u_username r = username \<and> u_password r = hash_password sha256 password)
       (rows (users d))"

section \<open>What a page shows\<close>

text \<open>
  A run of a page function is modelled by the database it leaves and the list of the
  Streamlit output calls it made, in order. Input widgets (\<open>text_area\<close>, \<open>text_input\<close>,
  \<open>slider\<close>, \<open>selectbox\<close>, \<open>radio\<close>, \<open>button\<close>) are the arguments that carry the values
  they returned in this run; \<open>st.session_state.user_id\<close> is the argument \<open>user_id\<close>, and
  \<open>now\<close> is the text of \<open>CURRENT_TIMESTAMP\<close> during the run.
  \<open>st.experimental_rerun()\<close> ends the run: nothing after \<open>Experimental_rerun\<close> is executed.
  A run that ends in an exception is modelled by the exception alone (\<open>Inl\<close>): it has
  committed nothing, so the database is the one it started with.
\<close>

datatype ui_event =
    Header string
  | Subheader string
  | Write string
  | Info string
  | Warning string
  | Success string
  | Expander string string
  | Altair_chart "(timestamp \<times> int) list"
  | Experimental_rerun

section \<open>The journal page\<close>

definition insert_journal_entry :: "user_id \<Rightarrow> string \<Rightarrow> timestamp \<Rightarrow> db \<Rightarrow> db" where
  "insert_journal_entry user_id entry now d =
     d\<lparr>journal_entries := insert_row
         (\<lambda>i. \<lparr>j_id = i, j_user_id = user_id, j_timestamp = now, j_entry_text = entry\<rparr>)
         (journal_entries d)\<rparr>"

text \<open>
  \<open>SELECT timestamp, entry_text FROM journal_entries WHERE user_id = ... ORDER BY
  timestamp DESC\<close>: \<open>journal_rows_for\<close> is the selection and the order,
  \<open>select_journal_entries\<close> the two columns read from it. SQLite sorts stably: rows with
  equal timestamps come in the order of their insertion, in a descending order too.
  \<open>sort_key\<close> is stable, and \<open>order_by_desc\<close> is the stable sort on the reversed order.
\<close>

definition order_by_desc :: "('r \<Rightarrow> 'k::linorder) \<Rightarrow> 'r list \<Rightarrow> 'r list" where
  "order_by_desc key xs = rev (sort_key key (rev xs))"

definition journal_rows_for :: "user_id \<Rightarrow> db \<Rightarrow> journal_row list" where
  "journal_rows_for user_id d =
     order_by_desc j_timestamp (filter (\<lambda>r. j_user_id r = user_id) (rows (journal_entries d)))"

definition select_journal_entries :: "user_id \<Rightarrow> db \<Rightarrow> (timestamp \<times> string) list" where
  "select_journal_entries user_id d =
     map (\<lambda>r. (j_timestamp r, j_entry_text r)) (journal_rows_for user_id d)"

definition journal_page :: "user_id \<Rightarrow> string \<Rightarrow> bool \<Rightarrow> timestamp \<Rightarrow> db \<Rightarrow> db \<times> ui_event list" where
  "journal_page user_id entry save_entry now d =
     (let out = [Header (''My Private Journal '' @ writing_hand),
                 Write ''Reflect on your thoughts and feelings. This is a safe space for you.'']
      in
      if save_entry \<and> entry \<noteq> [] then
        (insert_journal_entry user_id entry now d,
         out @ [Success ''Journal entry saved!'', Experimental_rerun])
      else
        let out = (if save_entry then out @ [Warning ''Please write something before saving.'']
                   else out);
            entries = select_journal_entries user_id d
        in (d, out @ [Subheader ''Past Entries''] @
              (if entries = [] then [Info (''You haven'' @ [CHR 0x27] @ ''t written any journal entries yet.'')]
               else map (\<lambda>(ts, txt). Expander (''Entry from '' @ ts) txt) entries)))"

section \<open>The mood tracker page\<close>

definition insert_mood_entry ::
  "user_id \<Rightarrow> int \<Rightarrow> string \<Rightarrow> timestamp \<Rightarrow> db \<Rightarrow> py_error + db" where
  "insert_mood_entry user_id mood_score mood_notes now d =
     (if sqlite_int mood_score then
        Inr (d\<lparr>mood_entries := insert_row
              (\<lambda>i. \<lparr>m_id = i, m_user_id = user_id, m_timestamp = now,
                    m_mood_score = mood_score, m_mood_notes = mood_notes\<rparr>)
              (mood_entries d)\<rparr>)
      else Inl OverflowError)"

text \<open>\<open>SELECT timestamp, mood_score FROM mood_entries WHERE user_id = ... ORDER BY
  timestamp ASC\<close>.\<close>

definition mood_rows_for :: "user_id \<Rightarrow> db \<Rightarrow> mood_row list" where
  "mood_rows_for user_id d =
     sort_key m_timestamp (filter (\<lambda>r. m_user_id r = user_id) (rows (mood_entries d)))"

definition select_mood_data :: "user_id \<Rightarrow> db \<Rightarrow> (timestamp \<times> int) list" where
  "select_mood_data user_id d =
     map (\<lambda>r. (m_timestamp r, m_mood_score r)) (mood_rows_for user_id d)"

text \<open>
  \<open>st.slider(label, 1, 5, 3)\<close> hands back a position of the slider, which the widget keeps
  between its minimum and its maximum. \<open>slider_value lo hi v\<close> says that \<open>v\<close> is such a
  value; the page itself does not test it.
\<close>

definition slider_value :: "int \<Rightarrow> int \<Rightarrow> int \<Rightarrow> bool" where
  "slider_value lo hi v = (lo \<le> v \<and> v \<le> hi)"

text \<open>The part of the page below the button, run on the database as it then is.\<close>

definition mood_history :: "user_id \<Rightarrow> db \<Rightarrow> ui_event list" where
  "mood_history user_id d =
     (let mood_data = select_mood_data user_id d
      in Subheader ''Your Mood History'' #
           (if mood_data = []
            then [Info ''No mood data logged yet. Track your mood to see trends here.'']
            else [Altair_chart mood_data]))"

definition mood_tracker_page ::
  "user_id \<Rightarrow> int \<Rightarrow> string \<Rightarrow> bool \<Rightarrow> timestamp \<Rightarrow> db \<Rightarrow> py_error + db \<times> ui_event list" where
  "mood_tracker_page user_id mood_score mood_notes log_mood now d =
     (let out = [Header (''Mood Tracker '' @ faces), Write ''How are you feeling today?''] in
      if log_mood then
        (case insert_mood_entry user_id mood_score mood_notes now d of
           Inl e \<Rightarrow> Inl e
         | Inr d' \<Rightarrow>
             Inr (d', out @ [Success ''Mood logged successfully!''] @ mood_history user_id d'))
      else Inr (d, out @ mood_history user_id d))"

section \<open>The screening page\<close>

definition options :: "string list" where
  "options = [''Not at all'', ''Several days'', ''More than half the days'', ''Nearly every day'']"

text \<open>\<open>scores = {option: i for i, option in enumerate(options)}\<close>\<close>

definition scores :: "string \<rightharpoonup> int" where
  "scores = py_dict (map (\<lambda>(i, option). (option, int i)) (enumerate 0 options))"

definition phq9_questions :: "string list" where
  "phq9_questions =
     [''Little interest or pleasure in doing things'',
      ''Feeling down, depressed, or hopeless'',
      ''Trouble falling or staying asleep, or sleeping too much'',
      ''Feeling tired or having little energy'',
      ''Poor appetite or overeating'',
      ''Feeling bad about yourself '' @ emdash @
        '' or that you are a failure or have let yourself or your family down'',
      ''Trouble concentrating on things, such as reading the newspaper or watching television'',
      ''Moving or speaking so slowly that other people could have noticed? Or the opposite '' @
        emdash @
        '' being so fidgety or restless that you have been moving around a lot more than usual'',
      ''Thoughts that you would be better off dead or of hurting yourself in some way'']"

definition gad7_questions :: "string list" where
  "gad7_questions =
     [''Feeling nervous, anxious, or on edge'',
      ''Not being able to stop or control worrying'',
      ''Worrying too much about different things'',
      ''Trouble relaxing'',
      ''Being so restless that it is hard to sit still'',
      ''Becoming easily annoyed or irritable'',
      ''Feeling afraid as if something awful might happen'']"

text \<open>
  The loop \<open>for i, q in enumerate(questions)\<close>: \<open>radio i\<close> is what \<open>st.radio\<close> returned
  for question \<open>i\<close> (the widget with key \<open>phq9_i\<close> or \<open>gad7_i\<close>), and \<open>scores[answer]\<close> is
  appended to \<open>results\<close>.
\<close>

fun radio_loop :: "(nat \<Rightarrow> string) \<Rightarrow> (nat \<times> string) list \<Rightarrow> int list \<Rightarrow> py_error + int list" where
  "radio_loop radio [] results = Inr results"
| "radio_loop radio ((i, q) # iqs) results =
     (case getitem scores (radio i) of
        Inl e \<Rightarrow> Inl e
      | Inr s \<Rightarrow> radio_loop radio iqs (results @ [s]))"

text \<open>\<open>st.radio(label, options)\<close> returns one of the options it was given.\<close>

definition radio_value :: "string list \<Rightarrow> string \<Rightarrow> bool" where
  "radio_value opts answer = (answer \<in> set opts)"

definition insert_screening_result ::
  "user_id \<Rightarrow> string \<Rightarrow> int \<Rightarrow> string \<Rightarrow> timestamp \<Rightarrow> db \<Rightarrow> py_error + db" where
  "insert_screening_result user_id test_type total_score category now d =
     (if sqlite_int total_score then
        Inr (d\<lparr>screening_results := insert_row
              (\<lambda>i. \<lparr>s_id = i, s_user_id = user_id, s_test_type = test_type, s_timestamp = now,
                    s_score = total_score, s_category = category\<rparr>)
              (screening_results d)\<rparr>)
      else Inl OverflowError)"

text \<open>The \<open>if\<close>/\<open>elif\<close> chains that pick the category, starting from \<open>"Unknown"\<close>.\<close>

definition phq9_category :: "int \<Rightarrow> py_error + string" where
  "phq9_category total_score =
     (case in_threshold PHQ9_THRESHOLDS ''none_mild'' total_score of Inl e \<Rightarrow> Inl e | Inr b1 \<Rightarrow>
      if b1 then Inr ''None to Mild Depression'' else
     (case in_threshold PHQ9_THRESHOLDS ''moderate'' total_score of Inl e \<Rightarrow> Inl e | Inr b2 \<Rightarrow>
      if b2 then Inr ''Moderate Depression'' else
     (case in_threshold PHQ9_THRESHOLDS ''moderately_severe'' total_score of Inl e \<Rightarrow> Inl e | Inr b3 \<Rightarrow>
      if b3 then Inr ''Moderately Severe Depression'' else
     (case in_threshold PHQ9_THRESHOLDS ''severe'' total_score of Inl e \<Rightarrow> Inl e | Inr b4 \<Rightarrow>
      if b4 then Inr ''Severe Depression'' else Inr ''Unknown''))))"

definition gad7_category :: "int \<Rightarrow> py_error + string" where
  "gad7_category total_score =
     (case in_threshold GAD7_THRESHOLDS ''none_mild'' total_score of Inl e \<Rightarrow> Inl e | Inr b1 \<Rightarrow>
      if b1 then Inr ''None to Mild Anxiety'' else
     (case in_threshold GAD7_THRESHOLDS ''moderate'' total_score of Inl e \<Rightarrow> Inl e | Inr b2 \<Rightarrow>
      if b2 then Inr ''Moderate Anxiety'' else
     (case in_threshold GAD7_THRESHOLDS ''severe'' total_score of Inl e \<Rightarrow> Inl e | Inr b3 \<Rightarrow>
      if b3 then Inr ''Severe Anxiety'' else Inr ''Unknown'')))"

text \<open>What the two \<open>Calculate\<close> branches have in common once the category is chosen: show
  the score, save the result, and show the helpline from a score of 10.\<close>

definition show_and_save ::
  "user_id \<Rightarrow> string \<Rightarrow> int \<Rightarrow> string \<Rightarrow> timestamp \<Rightarrow> db \<Rightarrow> py_error + db \<times> ui_event list" where
  "show_and_save user_id test_type total_score category now d =
     (case insert_screening_result user_id test_type total_score category now d of
        Inl e \<Rightarrow> Inl e
      | Inr d' \<Rightarrow>
          Inr (d',
               [Subheader (''Your score is: '' @ str_int total_score),
                Write (''This suggests: **'' @ category @ ''**'')] @
               (if total_score \<ge> 10
                then [Warning ''Your score indicates you may benefit from talking to a mental health professional.'',
                      Info EMERGENCY_HELPLINE]
                else [])))"

definition phq9_calculate ::
  "user_id \<Rightarrow> int list \<Rightarrow> timestamp \<Rightarrow> db \<Rightarrow> py_error + db \<times> ui_event list" where
  "phq9_calculate user_id results now d =
     (let total_score = sum_list results in
      case phq9_category total_score of
        Inl e \<Rightarrow> Inl e
      | Inr category \<Rightarrow> show_and_save user_id ''PHQ-9'' total_score category now d)"

definition gad7_calculate ::
  "user_id \<Rightarrow> int list \<Rightarrow> timestamp \<Rightarrow> db \<Rightarrow> py_error + db \<times> ui_event list" where
  "gad7_calculate user_id results now d =
     (let total_score = sum_list results in
      case gad7_category total_score of
        Inl e \<Rightarrow> Inl e
      | Inr category \<Rightarrow> show_and_save user_id ''GAD-7'' total_score category now d)"

definition screening_intro :: "ui_event list" where
  "screening_intro =
     [Header (''Self-Screening Tools '' @ memo),
      Info (''These are not diagnostic tools. They are meant to help you understand your '' @
            ''feelings. Please consult a professional for a diagnosis.'')]"

definition screening_page ::
  "user_id \<Rightarrow> string \<Rightarrow> (nat \<Rightarrow> string) \<Rightarrow> bool \<Rightarrow> timestamp \<Rightarrow> db \<Rightarrow> py_error + db \<times> ui_event list" where
  "screening_page user_id test radio calculate now d =
     (if test = ''PHQ-9 (Depression)'' then
        (case radio_loop radio (enumerate 0 phq9_questions) [] of
           Inl e \<Rightarrow> Inl e
         | Inr results \<Rightarrow>
             if calculate then
               (case phq9_calculate user_id results now d of
                  Inl e \<Rightarrow> Inl e
                | Inr (d', out) \<Rightarrow> Inr (d', screening_intro @ out))
             else Inr (d, screening_intro))
      else if test = ''GAD-7 (Anxiety)'' then
        (case radio_loop radio (enumerate 0 gad7_questions) [] of
           Inl e \<Rightarrow> Inl e
         | Inr results \<Rightarrow>
             if calculate then
               (case gad7_calculate user_id results now d of
                  Inl e \<Rightarrow> Inl e
                | Inr (d', out) \<Rightarrow> Inr (d', screening_intro @ out))
             else Inr (d, screening_intro))
      else Inr (d, screening_intro))"

section \<open>The databases the program can produce\<close>

text \<open>
  The database file is created by \<open>init_db\<close> and afterwards changed only by \<open>signup\<close> and
  by the three pages. A run of the mood tracker gets its score from
  \<open>st.slider(..., 1, 5, 3)\<close>, so the score of a run is a value of that slider.
\<close>

inductive reachable :: "(string \<Rightarrow> string) \<Rightarrow> db \<Rightarrow> bool" for sha256 :: "string \<Rightarrow> string" where
  reachable_init: "reachable sha256 init_db"
| reachable_signup:
    "reachable sha256 d \<Longrightarrow> signup sha256 username password d = Inr (ok, d') \<Longrightarrow>
     reachable sha256 d'"
| reachable_journal:
    "reachable sha256 d \<Longrightarrow>
     reachable sha256 (fst (journal_page user_id entry save_entry now d))"
| reachable_mood:
    "reachable sha256 d \<Longrightarrow> slider_value 1 5 mood_score \<Longrightarrow>
     mood_tracker_page user_id mood_score mood_notes log_mood now d = Inr (d', out) \<Longrightarrow>
     reachable sha256 d'"
| reachable_screening:
    "reachable sha256 d \<Longrightarrow>
     screening_page user_id test radio calculate now d = Inr (d', out) \<Longrightarrow>
     reachable sha256 d'"

section \<open>The category chains, evaluated\<close>

lemma in_threshold_phq9:
  "in_threshold PHQ9_THRESHOLDS ''none_mild'' t = Inr (0 \<le> t \<and> t < 10)"
  "in_threshold PHQ9_THRESHOLDS ''moderate'' t = Inr (10 \<le> t \<and> t < 15)"
  "in_threshold PHQ9_THRESHOLDS ''moderately_severe'' t = Inr (15 \<le> t \<and> t < 20)"
  "in_threshold PHQ9_THRESHOLDS ''severe'' t = Inr (20 \<le> t \<and> t < 100)"
  by (simp_all add: in_threshold_def PHQ9_THRESHOLDS_def py_dict_def getitem_def
      range_py_def range_contains_def)

lemma in_threshold_gad7:
  "in_threshold GAD7_THRESHOLDS ''none_mild'' t = Inr (0 \<le> t \<and> t < 10)"
  "in_threshold GAD7_THRESHOLDS ''moderate'' t = Inr (10 \<le> t \<and> t < 15)"
  "in_threshold GAD7_THRESHOLDS ''severe'' t = Inr (15 \<le> t \<and> t < 22)"
  by (simp_all add: in_threshold_def GAD7_THRESHOLDS_def py_dict_def getitem_def
      range_py_def range_contains_def)

lemma phq9_category_eq:
  "phq9_category t = Inr
     (if 0 \<le> t \<and> t < 10 then ''None to Mild Depression''
      else if 10 \<le> t \<and> t < 15 then ''Moderate Depression''
      else if 15 \<le> t \<and> t < 20 then ''Moderately Severe Depression''
      else if 20 \<le> t \<and> t < 100 then ''Severe Depression''
      else ''Unknown'')"
  by (simp add: phq9_category_def in_threshold_phq9)

lemma gad7_category_eq:
  "gad7_category t = Inr
     (if 0 \<le> t \<and> t < 10 then ''None to Mild Anxiety''
      else if 10 \<le> t \<and> t < 15 then ''Moderate Anxiety''
      else if 15 \<le> t \<and> t < 22 then ''Severe Anxiety''
      else ''Unknown'')"
  by (simp add: gad7_category_def in_threshold_gad7)

lemma sum_list_bounds:
  "\<forall>x\<in>set xs. 0 \<le> x \<and> x \<le> (3::int) \<Longrightarrow> 0 \<le> sum_list xs \<and> sum_list xs \<le> 3 * int (length xs)"
  by (induction xs) auto

lemma sqlite_int_small: "- 100 \<le> i \<Longrightarrow> i \<le> 100 \<Longrightarrow> sqlite_int i"
  by (simp add: sqlite_int_def)

section \<open>Showing and saving a screening result\<close>

lemma helpline_not_intro: "Info EMERGENCY_HELPLINE \<notin> set screening_intro"
  by (simp add: screening_intro_def EMERGENCY_HELPLINE_def)

lemma show_and_save_eq:
  "show_and_save user_id test_type total_score category now d =
     (if sqlite_int total_score then
        Inr (d\<lparr>screening_results := insert_row
               (\<lambda>i. \<lparr>s_id = i, s_user_id = user_id, s_test_type = test_type, s_timestamp = now,
                     s_score = total_score, s_category = category\<rparr>)
               (screening_results d)\<rparr>,
             [Subheader (''Your score is: '' @ str_int total_score),
              Write (''This suggests: **'' @ category @ ''**'')] @
             (if total_score \<ge> 10
              then [Warning ''Your score indicates you may benefit from talking to a mental health professional.'',
                    Info EMERGENCY_HELPLINE]
              else []))
      else Inl OverflowError)"
  by (simp add: show_and_save_def insert_screening_result_def)

lemma show_and_save_run:
  assumes "show_and_save user_id test_type total_score category now d = Inr (d', out)"
  shows "rows (screening_results d') = rows (screening_results d) @
           [\<lparr>s_id = seq (screening_results d) + 1, s_user_id = user_id, s_test_type = test_type,
             s_timestamp = now, s_score = total_score, s_category = category\<rparr>]"
    and "(Info EMERGENCY_HELPLINE \<in> set out) = (total_score \<ge> 10)"
    and "users d' = users d"
    and "journal_entries d' = journal_entries d"
    and "mood_entries d' = mood_entries d"
  using assms by (auto simp: show_and_save_eq insert_row_def split: if_splits)

lemma phq9_calculate_eq:
  "phq9_calculate user_id results now d =
     show_and_save user_id ''PHQ-9'' (sum_list results)
       (if 0 \<le> sum_list results \<and> sum_list results < 10 then ''None to Mild Depression''
        else if 10 \<le> sum_list results \<and> sum_list results < 15 then ''Moderate Depression''
        else if 15 \<le> sum_list results \<and> sum_list results < 20 then ''Moderately Severe Depression''
        else if 20 \<le> sum_list results \<and> sum_list results < 100 then ''Severe Depression''
        else ''Unknown'') now d"
  by (simp add: phq9_calculate_def phq9_category_eq Let_def)

lemma gad7_calculate_eq:
  "gad7_calculate user_id results now d =
     show_and_save user_id ''GAD-7'' (sum_list results)
       (if 0 \<le> sum_list results \<and> sum_list results < 10 then ''None to Mild Anxiety''
        else if 10 \<le> sum_list results \<and> sum_list results < 15 then ''Moderate Anxiety''
        else if 15 \<le> sum_list results \<and> sum_list results < 22 then ''Severe Anxiety''
        else ''Unknown'') now d"
  by (simp add: gad7_calculate_def gad7_category_eq Let_def)

lemma screening_page_run:
  assumes test: "test = ''PHQ-9 (Depression)'' \<or> test = ''GAD-7 (Anxiety)''"
      and run: "screening_page user_id test radio True now d = Inr (d', out)"
  shows "\<exists>test_type results category out'.
           show_and_save user_id test_type (sum_list results) category now d = Inr (d', out') \<and>
           out = screening_intro @ out'"
proof -
  from test show ?thesis
  proof
    assume t: "test = ''PHQ-9 (Depression)''"
    with run show ?thesis
      unfolding screening_page_def phq9_calculate_eq
      by (simp split: sum.splits prod.splits) blast
  next
    assume t: "test = ''GAD-7 (Anxiety)''"
    with run show ?thesis
      unfolding screening_page_def gad7_calculate_eq
      by (simp split: sum.splits prod.splits) blast
  qed
qed

section \<open>Crisis escalation\<close>

text \<open>
  Claim C1. A run of the screening page in which the Calculate button of the chosen
  questionnaire (PHQ-9 or GAD-7) was pressed, and which ran to its end, saved exactly one
  new screening row, and it showed the emergency helpline text if and only if the score
  saved in that row is 10 or more. So a score of 9 does not bring up the helpline and a
  score of 10 does.
\<close>

theorem escalation_iff_score_ge_10:
  assumes test: "test = ''PHQ-9 (Depression)'' \<or> test = ''GAD-7 (Anxiety)''"
      and run: "screening_page user_id test radio True now d = Inr (d', out)"
  shows "\<exists>row. rows (screening_results d') = rows (screening_results d) @ [row]
           \<and> (Info EMERGENCY_HELPLINE \<in> set out) = (s_score row \<ge> 10)"
proof -
  from screening_page_run [OF test run] obtain test_type results category out' where
    sas: "show_and_save user_id test_type (sum_list results) category now d = Inr (d', out')" and
    out: "out = screening_intro @ out'"
    by blast
  have "(Info EMERGENCY_HELPLINE \<in> set out) = (sum_list results \<ge> 10)"
    using show_and_save_run(2) [OF sas] helpline_not_intro by (simp add: out)
  with show_and_save_run(1) [OF sas] show ?thesis
    by simp
qed

lemma scores_options:
  "getitem scores ''Not at all'' = Inr 0"
  "getitem scores ''Several days'' = Inr 1"
  "getitem scores ''More than half the days'' = Inr 2"
  "getitem scores ''Nearly every day'' = Inr 3"
  by (simp_all add: getitem_def scores_def options_def py_dict_def enumerate_eq_zip upt_rec)

theorem escalation_witness:
  "(\<exists>d' out.
      screening_page 1 ''PHQ-9 (Depression)''
        (\<lambda>i. if i < 5 then ''More than half the days'' else ''Not at all'') True
        ''2024-01-01 00:00:00'' init_db = Inr (d', out) \<and>
      map s_score (rows (screening_results d')) = [10] \<and>
      Info EMERGENCY_HELPLINE \<in> set out)
   \<and> (\<exists>d' out.
      screening_page 1 ''GAD-7 (Anxiety)''
        (\<lambda>i. if i < 3 then ''Nearly every day'' else ''Not at all'') True
        ''2024-01-01 00:00:00'' init_db = Inr (d', out) \<and>
      map s_score (rows (screening_results d')) = [9] \<and>
      Info EMERGENCY_HELPLINE \<notin> set out)"
proof -
  let ?a10 = "\<lambda>i::nat. if i < 5 then ''More than half the days'' else ''Not at all''"
  let ?a9 = "\<lambda>i::nat. if i < 3 then ''Nearly every day'' else ''Not at all''"
  have loop10: "radio_loop ?a10 (enumerate 0 phq9_questions) [] = Inr [2, 2, 2, 2, 2, 0, 0, 0, 0]"
    by (simp add: phq9_questions_def scores_options)
  have loop9: "radio_loop ?a9 (enumerate 0 gad7_questions) [] = Inr [3, 3, 3, 0, 0, 0, 0]"
    by (simp add: gad7_questions_def scores_options)
  obtain d10 out10 where r10:
    "show_and_save 1 ''PHQ-9'' 10 ''Moderate Depression'' ''2024-01-01 00:00:00'' init_db
       = Inr (d10, out10)"
    by (simp add: show_and_save_eq sqlite_int_def)
  obtain d9 out9 where r9:
    "show_and_save 1 ''GAD-7'' 9 ''None to Mild Anxiety'' ''2024-01-01 00:00:00'' init_db
       = Inr (d9, out9)"
    by (simp add: show_and_save_eq sqlite_int_def)
  have run10:
    "screening_page 1 ''PHQ-9 (Depression)'' ?a10 True ''2024-01-01 00:00:00'' init_db
       = Inr (d10, screening_intro @ out10)"
    by (simp add: screening_page_def loop10 phq9_calculate_eq r10)
  have run9:
    "screening_page 1 ''GAD-7 (Anxiety)'' ?a9 True ''2024-01-01 00:00:00'' init_db
       = Inr (d9, screening_intro @ out9)"
    by (simp add: screening_page_def loop9 gad7_calculate_eq r9)
  have rows10: "map s_score (rows (screening_results d10)) = [10]"
    using show_and_save_run(1) [OF r10] by (simp add: init_db_def empty_table_def)
  have rows9: "map s_score (rows (screening_results d9)) = [9]"
    using show_and_save_run(1) [OF r9] by (simp add: init_db_def empty_table_def)
  from escalation_iff_score_ge_10 [OF _ run10] rows10
  have "Info EMERGENCY_HELPLINE \<in> set (screening_intro @ out10)"
    by auto
  moreover
  from escalation_iff_score_ge_10 [OF _ run9] rows9
  have "Info EMERGENCY_HELPLINE \<notin> set (screening_intro @ out9)"
    by auto
  ultimately show ?thesis
    using run10 run9 rows10 rows9 by simp
qed

section \<open>PHQ-9 totals and categories\<close>

text \<open>
  Claim C2. For a PHQ-9 answer list of length 9 whose entries lie between 0 and 3, the
  Calculate branch succeeds, the score it shows and saves is the sum of the nine entries,
  that sum lies between 0 and 36, and the category it computes, shows and saves is one of
  the four depression labels: the first below 10, the second from 10 to 14, the third
  from 15 to 19 and the fourth from 20 on, each label for exactly its own interval.
\<close>

theorem phq9_total_and_category:
  assumes len: "length results = 9" and rng: "\<forall>x\<in>set results. 0 \<le> x \<and> x \<le> 3"
  shows "\<exists>category.
     phq9_category (sum_list results) = Inr category
     \<and> phq9_calculate user_id results now d =
         Inr (d\<lparr>screening_results := insert_row
                (\<lambda>i. \<lparr>s_id = i, s_user_id = user_id, s_test_type = ''PHQ-9'',
                      s_timestamp = now, s_score = sum_list results,
                      s_category = category\<rparr>)
                (screening_results d)\<rparr>,
              [Subheader (''Your score is: '' @ str_int (sum_list results)),
               Write (''This suggests: **'' @ category @ ''**'')] @
              (if sum_list results \<ge> 10
               then [Warning ''Your score indicates you may benefit from talking to a mental health professional.'',
                     Info EMERGENCY_HELPLINE]
               else []))
     \<and> 0 \<le> sum_list results \<and> sum_list results \<le> 36
     \<and> category \<in> set [''None to Mild Depression'', ''Moderate Depression'',
                        ''Moderately Severe Depression'', ''Severe Depression'']
     \<and> (category = ''None to Mild Depression'') = (sum_list results < 10)
     \<and> (category = ''Moderate Depression'') = (10 \<le> sum_list results \<and> sum_list results < 15)
     \<and> (category = ''Moderately Severe Depression'') = (15 \<le> sum_list results \<and> sum_list results < 20)
     \<and> (category = ''Severe Depression'') = (20 \<le> sum_list results)"
proof -
  from sum_list_bounds [OF rng] len
  have b: "0 \<le> sum_list results" "sum_list results \<le> 27"
    by simp_all
  then have fits: "sqlite_int (sum_list results)"
    by (simp add: sqlite_int_small)
  consider "sum_list results < 10" | "10 \<le> sum_list results" "sum_list results < 15"
    | "15 \<le> sum_list results" "sum_list results < 20" | "20 \<le> sum_list results"
    by linarith
  then show ?thesis
  proof cases
    case 1
    with b fits show ?thesis by (simp add: phq9_calculate_eq phq9_category_eq show_and_save_eq)
  next
    case 2
    with b fits show ?thesis by (simp add: phq9_calculate_eq phq9_category_eq show_and_save_eq)
  next
    case 3
    with b fits show ?thesis by (simp add: phq9_calculate_eq phq9_category_eq show_and_save_eq)
  next
    case 4
    with b fits show ?thesis by (simp add: phq9_calculate_eq phq9_category_eq show_and_save_eq)
  qed
qed

theorem phq9_total_and_category_witness:
  "phq9_category 27 = Inr ''Severe Depression''
   \<and> (\<exists>d' out.
        phq9_calculate 1 [3, 3, 3, 3, 3, 3, 3, 3, 3] ''2024-01-01 00:00:00'' init_db
          = Inr (d', out)
        \<and> map (\<lambda>r. (s_score r, s_category r)) (rows (screening_results d'))
            = [(27, ''Severe Depression'')])"
  using phq9_total_and_category [of "[3, 3, 3, 3, 3, 3, 3, 3, 3]" 1 "''2024-01-01 00:00:00''" init_db]
  by (auto simp: insert_row_def init_db_def empty_table_def)

section \<open>GAD-7 totals and categories\<close>

text \<open>
  Claim C3. For a GAD-7 answer list of length 7 whose entries lie between 0 and 3, the
  Calculate branch succeeds with the sum of the entries as score, the sum lies between 0
  and 21, and the category it computes, shows and saves is one of the three anxiety
  labels: the first below 10, the second from 10 to 14, the third from 15 on. A score of 9
  is "None to Mild Anxiety" and a score of 10 is "Moderate Anxiety".
\<close>

theorem gad7_total_and_category:
  assumes len: "length results = 7" and rng: "\<forall>x\<in>set results. 0 \<le> x \<and> x \<le> 3"
  shows "\<exists>category.
     gad7_category (sum_list results) = Inr category
     \<and> gad7_calculate user_id results now d =
         Inr (d\<lparr>screening_results := insert_row
                (\<lambda>i. \<lparr>s_id = i, s_user_id = user_id, s_test_type = ''GAD-7'',
                      s_timestamp = now, s_score = sum_list results,
                      s_category = category\<rparr>)
                (screening_results d)\<rparr>,
              [Subheader (''Your score is: '' @ str_int (sum_list results)),
               Write (''This suggests: **'' @ category @ ''**'')] @
              (if sum_list results \<ge> 10
               then [Warning ''Your score indicates you may benefit from talking to a mental health professional.'',
                     Info EMERGENCY_HELPLINE]
               else []))
     \<and> 0 \<le> sum_list results \<and> sum_list results \<le> 21
     \<and> category \<in> set [''None to Mild Anxiety'', ''Moderate Anxiety'', ''Severe Anxiety'']
     \<and> (category = ''None to Mild Anxiety'') = (sum_list results < 10)
     \<and> (category = ''Moderate Anxiety'') = (10 \<le> sum_list results \<and> sum_list results < 15)
     \<and> (category = ''Severe Anxiety'') = (15 \<le> sum_list results)
     \<and> gad7_category 9 = Inr ''None to Mild Anxiety''
     \<and> gad7_category 10 = Inr ''Moderate Anxiety''"
proof -
  from sum_list_bounds [OF rng] len
  have b: "0 \<le> sum_list results" "sum_list results \<le> 21"
    by simp_all
  then have fits: "sqlite_int (sum_list results)"
    by (simp add: sqlite_int_small)
  have edge: "gad7_category 9 = Inr ''None to Mild Anxiety''" "gad7_category 10 = Inr ''Moderate Anxiety''"
    by (simp_all add: gad7_category_eq)
  consider "sum_list results < 10" | "10 \<le> sum_list results" "sum_list results < 15"
    | "15 \<le> sum_list results"
    by linarith
  then show ?thesis
  proof cases
    case 1
    with b fits edge show ?thesis
      by (simp add: gad7_calculate_eq show_and_save_eq) (simp add: gad7_category_eq)
  next
    case 2
    with b fits edge show ?thesis
      by (simp add: gad7_calculate_eq show_and_save_eq) (simp add: gad7_category_eq)
  next
    case 3
    with b fits edge show ?thesis
      by (simp add: gad7_calculate_eq show_and_save_eq) (simp add: gad7_category_eq)
  qed
qed

theorem gad7_total_and_category_witness:
  "gad7_category 10 = Inr ''Moderate Anxiety''
   \<and> (\<exists>d' out.
        gad7_calculate 1 [3, 3, 3, 1, 0, 0, 0] ''2024-01-01 00:00:00'' init_db
          = Inr (d', out)
        \<and> map (\<lambda>r. (s_score r, s_category r)) (rows (screening_results d'))
            = [(10, ''Moderate Anxiety'')])"
  using gad7_total_and_category [of "[3, 3, 3, 1, 0, 0, 0]" 1 "''2024-01-01 00:00:00''" init_db]
  by (auto simp: insert_row_def init_db_def empty_table_def)

section \<open>The upper end of the PHQ-9 ranges\<close>

lemma ran_PHQ9_THRESHOLDS:
  "ran PHQ9_THRESHOLDS = {range_py 0 10, range_py 10 15, range_py 15 20, range_py 20 100}"
  unfolding PHQ9_THRESHOLDS_def py_dict_def
  by (subst ran_distinct) auto

text \<open>
  Claim C4 as stated says that every score from 20 on is "Severe Depression". The last
  range is \<open>range(20, 100)\<close>: a score of 100 is matched by no range and stays
  \<open>"Unknown"\<close>.
\<close>

theorem phq9_score_100_is_unknown:
  "(20::int) \<le> 100 \<and> phq9_category 100 = Inr ''Unknown''"
  by (simp add: phq9_category_eq)

text \<open>
  Claim C4, amended. Every score from 20 up to 99 is mapped to "Severe Depression", and
  \<open>"Unknown"\<close> is the result exactly when no range of \<open>PHQ9_THRESHOLDS\<close> contains the
  score, which is the case exactly for the scores below 0 and from 100 on.
\<close>

theorem phq9_severe_and_unknown:
  "(20 \<le> t \<and> t < 100 \<longrightarrow> phq9_category t = Inr ''Severe Depression'')
   \<and> (phq9_category t = Inr ''Unknown'') = (\<forall>r\<in>ran PHQ9_THRESHOLDS. \<not> range_contains r t)
   \<and> (phq9_category t = Inr ''Unknown'') = (t < 0 \<or> 100 \<le> t)"
  by (auto simp add: phq9_category_eq ran_PHQ9_THRESHOLDS range_contains_def range_py_def)

theorem phq9_severe_and_unknown_witness:
  "(20::int) \<le> 27 \<and> (27::int) < 100 \<and> phq9_category 27 = Inr ''Severe Depression''
   \<and> phq9_category 100 = Inr ''Unknown''
   \<and> list_all (\<lambda>r. \<not> range_contains r 100)
         [range_py 0 10, range_py 10 15, range_py 15 20, range_py 20 100]"
  using phq9_severe_and_unknown [of 27] phq9_severe_and_unknown [of 100]
  by (auto simp: ran_PHQ9_THRESHOLDS)

section \<open>How the answer list is built\<close>

lemma scores_eq:
  "scores a =
     (if a = ''Nearly every day'' then Some 3
      else if a = ''More than half the days'' then Some 2
      else if a = ''Several days'' then Some 1
      else if a = ''Not at all'' then Some 0 else None)"
  by (simp add: scores_def options_def py_dict_def enumerate_eq_zip upt_rec)

lemma getitem_scores_option:
  "radio_value options a \<Longrightarrow> \<exists>s. getitem scores a = Inr s \<and> 0 \<le> s \<and> s \<le> 3"
  by (auto simp: radio_value_def options_def getitem_def scores_eq)

lemma getitem_scores_other:
  "\<not> radio_value options a \<Longrightarrow> getitem scores a = Inl KeyError"
  by (simp add: radio_value_def options_def getitem_def scores_eq)

lemma radio_loop_options:
  assumes "\<forall>(i, q)\<in>set iqs. radio_value options (radio i)"
      and "\<forall>x\<in>set acc. 0 \<le> x \<and> x \<le> 3"
  shows "\<exists>results. radio_loop radio iqs acc = Inr results
           \<and> length results = length acc + length iqs \<and> (\<forall>x\<in>set results. 0 \<le> x \<and> x \<le> 3)"
  using assms
proof (induction iqs arbitrary: acc)
  case Nil
  then show ?case by simp
next
  case (Cons iq iqs)
  obtain i q where iq: "iq = (i, q)" by (cases iq)
  from Cons.prems(1) iq have "radio_value options (radio i)" by simp
  from getitem_scores_option [OF this] obtain s where
    s: "getitem scores (radio i) = Inr s" "0 \<le> s" "s \<le> 3" by blast
  from Cons.prems(2) s have acc': "\<forall>x\<in>set (acc @ [s]). 0 \<le> x \<and> x \<le> 3" by auto
  from Cons.prems(1) have "\<forall>(i, q)\<in>set iqs. radio_value options (radio i)" by simp
  from Cons.IH [OF this acc'] show ?case
    by (simp add: iq s)
qed

lemma radio_loop_other:
  assumes "\<exists>(i, q)\<in>set iqs. \<not> radio_value options (radio i)"
  shows "radio_loop radio iqs acc = Inl KeyError"
  using assms
proof (induction iqs arbitrary: acc)
  case Nil
  then show ?case by simp
next
  case (Cons iq iqs)
  obtain i q where iq: "iq = (i, q)" by (cases iq)
  show ?case
  proof (cases "radio_value options (radio i)")
    case True
    from getitem_scores_option [OF this] obtain s where
      s: "getitem scores (radio i) = Inr s" by blast
    from True Cons.prems iq have "\<exists>(i, q)\<in>set iqs. \<not> radio_value options (radio i)" by simp
    from Cons.IH [OF this] show ?thesis by (simp add: iq s)
  next
    case False
    then show ?thesis by (simp add: iq getitem_scores_other)
  qed
qed

lemma enumerate_indices:
  "(\<forall>(i, q)\<in>set (enumerate 0 qs). P i) = (\<forall>i<length qs. P i)"
  by (auto simp: in_set_enumerate_eq)

lemma length_questions: "length phq9_questions = 9" "length gad7_questions = 7"
  by (simp_all add: phq9_questions_def gad7_questions_def)

lemma str_5: "str_int 5 = ''5''"
  by code_simp

text \<open>
  Claim C5 as stated says that a list of the wrong length, or with an entry outside 0..3,
  is refused with \<open>InvalidAnswerSet\<close>. The Calculate branch has no such test: given the
  one-element list \<open>[5]\<close> it shows and saves the score 5.
\<close>

theorem scoring_accepts_malformed_list:
  "length [5::int] \<noteq> 9 \<and> \<not> (5::int) \<le> 3 \<and>
   phq9_calculate 1 [5] ''2024-01-01 00:00:00'' init_db =
     Inr (init_db\<lparr>screening_results :=
            \<lparr>rows = [\<lparr>s_id = 1, s_user_id = 1, s_test_type = ''PHQ-9'',
                       s_timestamp = ''2024-01-01 00:00:00'', s_score = 5,
                       s_category = ''None to Mild Depression''\<rparr>],
             seq = 1\<rparr>\<rparr>,
          [Subheader ''Your score is: 5'', Write ''This suggests: **None to Mild Depression**''])"
  by (simp add: phq9_calculate_eq show_and_save_eq sqlite_int_def insert_row_def
      init_db_def empty_table_def str_5)

text \<open>
  Claim C5, amended. The Calculate branches validate nothing and know no
  \<open>InvalidAnswerSet\<close>: they total and categorise every list of integers, and they show and
  save the result whenever the total fits a signed 64-bit integer; otherwise the
  \<open>INSERT\<close> raises \<open>OverflowError\<close> and nothing is saved. The list they get is
  well-formed by the way it is built: when every \<open>st.radio\<close> of the chosen questionnaire
  returned one of the four options, the loop over the questions yields a list with one
  entry per question (9 for PHQ-9, 7 for GAD-7), each entry between 0 and 3. An answer
  that is not one of the options stops the loop with \<open>KeyError\<close> at the lookup
  \<open>scores[answer]\<close>.
\<close>

theorem answer_list_valid_by_construction:
  "(\<exists>category. phq9_category (sum_list results) = Inr category \<and>
      phq9_calculate user_id results now d =
        (if sqlite_int (sum_list results) then
           Inr (d\<lparr>screening_results := insert_row
                  (\<lambda>i. \<lparr>s_id = i, s_user_id = user_id, s_test_type = ''PHQ-9'',
                        s_timestamp = now, s_score = sum_list results,
                        s_category = category\<rparr>)
                  (screening_results d)\<rparr>,
                [Subheader (''Your score is: '' @ str_int (sum_list results)),
                 Write (''This suggests: **'' @ category @ ''**'')] @
                (if sum_list results \<ge> 10
                 then [Warning ''Your score indicates you may benefit from talking to a mental health professional.'',
                       Info EMERGENCY_HELPLINE]
                 else []))
         else Inl OverflowError))
   \<and> (\<exists>category. gad7_category (sum_list results) = Inr category \<and>
      gad7_calculate user_id results now d =
        (if sqlite_int (sum_list results) then
           Inr (d\<lparr>screening_results := insert_row
                  (\<lambda>i. \<lparr>s_id = i, s_user_id = user_id, s_test_type = ''GAD-7'',
                        s_timestamp = now, s_score = sum_list results,
                        s_category = category\<rparr>)
                  (screening_results d)\<rparr>,
                [Subheader (''Your score is: '' @ str_int (sum_list results)),
                 Write (''This suggests: **'' @ category @ ''**'')] @
                (if sum_list results \<ge> 10
                 then [Warning ''Your score indicates you may benefit from talking to a mental health professional.'',
                       Info EMERGENCY_HELPLINE]
                 else []))
         else Inl OverflowError))
   \<and> ((\<forall>i<9. radio_value options (radio i)) \<longrightarrow>
        (\<exists>rs. radio_loop radio (enumerate 0 phq9_questions) [] = Inr rs
           \<and> length rs = 9 \<and> (\<forall>x\<in>set rs. 0 \<le> x \<and> x \<le> 3)))
   \<and> ((\<forall>i<7. radio_value options (radio i)) \<longrightarrow>
        (\<exists>rs. radio_loop radio (enumerate 0 gad7_questions) [] = Inr rs
           \<and> length rs = 7 \<and> (\<forall>x\<in>set rs. 0 \<le> x \<and> x \<le> 3)))
   \<and> ((\<exists>i<9. \<not> radio_value options (radio' i)) \<longrightarrow>
        radio_loop radio' (enumerate 0 phq9_questions) [] = Inl KeyError)
   \<and> ((\<exists>i<7. \<not> radio_value options (radio' i)) \<longrightarrow>
        radio_loop radio' (enumerate 0 gad7_questions) [] = Inl KeyError)"
proof (intro conjI impI)
  show "\<exists>category. phq9_category (sum_list results) = Inr category \<and>
      phq9_calculate user_id results now d =
        (if sqlite_int (sum_list results) then
           Inr (d\<lparr>screening_results := insert_row
                  (\<lambda>i. \<lparr>s_id = i, s_user_id = user_id, s_test_type = ''PHQ-9'',
                        s_timestamp = now, s_score = sum_list results,
                        s_category = category\<rparr>)
                  (screening_results d)\<rparr>,
                [Subheader (''Your score is: '' @ str_int (sum_list results)),
                 Write (''This suggests: **'' @ category @ ''**'')] @
                (if sum_list results \<ge> 10
                 then [Warning ''Your score indicates you may benefit from talking to a mental health professional.'',
                       Info EMERGENCY_HELPLINE]
                 else []))
         else Inl OverflowError)"
    unfolding phq9_calculate_eq phq9_category_eq show_and_save_eq
    by (rule exI, rule conjI) (rule refl)+
  show "\<exists>category. gad7_category (sum_list results) = Inr category \<and>
      gad7_calculate user_id results now d =
        (if sqlite_int (sum_list results) then
           Inr (d\<lparr>screening_results := insert_row
                  (\<lambda>i. \<lparr>s_id = i, s_user_id = user_id, s_test_type = ''GAD-7'',
                        s_timestamp = now, s_score = sum_list results,
                        s_category = category\<rparr>)
                  (screening_results d)\<rparr>,
                [Subheader (''Your score is: '' @ str_int (sum_list results)),
                 Write (''This suggests: **'' @ category @ ''**'')] @
                (if sum_list results \<ge> 10
                 then [Warning ''Your score indicates you may benefit from talking to a mental health professional.'',
                       Info EMERGENCY_HELPLINE]
                 else []))
         else Inl OverflowError)"
    unfolding gad7_calculate_eq gad7_category_eq show_and_save_eq
    by (rule exI, rule conjI) (rule refl)+
next
  assume "\<forall>i<9. radio_value options (radio i)"
  then have "\<forall>(i, q)\<in>set (enumerate 0 phq9_questions). radio_value options (radio i)"
    by (simp add: enumerate_indices length_questions)
  from radio_loop_options [OF this, of "[]"]
  show "\<exists>rs. radio_loop radio (enumerate 0 phq9_questions) [] = Inr rs
           \<and> length rs = 9 \<and> (\<forall>x\<in>set rs. 0 \<le> x \<and> x \<le> 3)"
    by (simp add: length_questions)
next
  assume "\<forall>i<7. radio_value options (radio i)"
  then have "\<forall>(i, q)\<in>set (enumerate 0 gad7_questions). radio_value options (radio i)"
    by (simp add: enumerate_indices length_questions)
  from radio_loop_options [OF this, of "[]"]
  show "\<exists>rs. radio_loop radio (enumerate 0 gad7_questions) [] = Inr rs
           \<and> length rs = 7 \<and> (\<forall>x\<in>set rs. 0 \<le> x \<and> x \<le> 3)"
    by (simp add: length_questions)
next
  assume "\<exists>i<9. \<not> radio_value options (radio' i)"
  then have "\<not> (\<forall>(i, q)\<in>set (enumerate 0 phq9_questions). radio_value options (radio' i))"
    by (simp add: enumerate_indices length_questions)
  then have "\<exists>(i, q)\<in>set (enumerate 0 phq9_questions). \<not> radio_value options (radio' i)"
    by auto
  from radio_loop_other [OF this]
  show "radio_loop radio' (enumerate 0 phq9_questions) [] = Inl KeyError" .
next
  assume "\<exists>i<7. \<not> radio_value options (radio' i)"
  then have "\<not> (\<forall>(i, q)\<in>set (enumerate 0 gad7_questions). radio_value options (radio' i))"
    by (simp add: enumerate_indices length_questions)
  then have "\<exists>(i, q)\<in>set (enumerate 0 gad7_questions). \<not> radio_value options (radio' i)"
    by auto
  from radio_loop_other [OF this]
  show "radio_loop radio' (enumerate 0 gad7_questions) [] = Inl KeyError" .
qed

theorem answer_list_valid_by_construction_witness:
  "radio_value options ''Nearly every day''
   \<and> (\<exists>rs. radio_loop (\<lambda>i. ''Nearly every day'') (enumerate 0 phq9_questions) [] = Inr rs
           \<and> length rs = 9 \<and> list_all (\<lambda>x. 0 \<le> x \<and> x \<le> 3) rs)
   \<and> (\<exists>rs. radio_loop (\<lambda>i. ''Nearly every day'') (enumerate 0 gad7_questions) [] = Inr rs
           \<and> length rs = 7 \<and> list_all (\<lambda>x. 0 \<le> x \<and> x \<le> 3) rs)
   \<and> \<not> radio_value options ''Always''
   \<and> radio_loop (\<lambda>i. ''Always'') (enumerate 0 phq9_questions) [] = Inl KeyError
   \<and> radio_loop (\<lambda>i. ''Always'') (enumerate 0 gad7_questions) [] = Inl KeyError
   \<and> \<not> sqlite_int (2 ^ 63)
   \<and> phq9_calculate 1 [2 ^ 63] ''2024-01-01 00:00:00'' init_db = Inl OverflowError
   \<and> gad7_calculate 1 [2 ^ 63] ''2024-01-01 00:00:00'' init_db = Inl OverflowError"
proof -
  have ok: "radio_value options ''Nearly every day''"
    by (simp add: radio_value_def options_def)
  have bad: "\<not> radio_value options ''Always''"
    by (simp add: radio_value_def options_def)
  have bad7: "\<exists>i<7::nat. \<not> radio_value options ((\<lambda>i. ''Always'') i)"
    using bad by (intro exI [of _ 0]) simp
  have bad9: "\<exists>i<9::nat. \<not> radio_value options ((\<lambda>i. ''Always'') i)"
    using bad by (intro exI [of _ 0]) simp
  have big: "\<not> sqlite_int (sum_list [2 ^ 63])"
    by (simp add: sqlite_int_def)
  from answer_list_valid_by_construction
         [of "[2 ^ 63]" 1 "''2024-01-01 00:00:00''" init_db
             "\<lambda>i. ''Nearly every day''" "\<lambda>i. ''Always''"]
    ok bad bad7 bad9 big
  show ?thesis by (simp add: list_all_iff)
qed

section \<open>What each operation does to the tables\<close>

lemma signup_cases:
  "signup sha256 username password d =
     (if username \<in> set (map u_username (rows (users d))) then Inr (False, d)
      else Inr (True, d\<lparr>users := \<lparr>rows = rows (users d) @
                  [\<lparr>u_id = seq (users d) + 1, u_username = username,
                    u_password = hash_password sha256 password\<rparr>],
                seq = seq (users d) + 1\<rparr>\<rparr>))"
  by (simp add: signup_def insert_user_def insert_row_def)

lemma journal_page_db:
  "fst (journal_page user_id entry save_entry now d) =
     (if save_entry \<and> entry \<noteq> [] then insert_journal_entry user_id entry now d else d)"
  by (simp add: journal_page_def Let_def)

lemma insert_journal_entry_tables [simp]:
  "users (insert_journal_entry user_id entry now d) = users d"
  "mood_entries (insert_journal_entry user_id entry now d) = mood_entries d"
  "screening_results (insert_journal_entry user_id entry now d) = screening_results d"
  "rows (journal_entries (insert_journal_entry user_id entry now d)) =
     rows (journal_entries d) @
       [\<lparr>j_id = seq (journal_entries d) + 1, j_user_id = user_id, j_timestamp = now,
         j_entry_text = entry\<rparr>]"
  by (simp_all add: insert_journal_entry_def insert_row_def)

lemma insert_mood_entry_eq:
  "insert_mood_entry user_id mood_score mood_notes now d =
     (if sqlite_int mood_score then
        Inr (d\<lparr>mood_entries :=
               \<lparr>rows = rows (mood_entries d) @
                  [\<lparr>m_id = seq (mood_entries d) + 1, m_user_id = user_id, m_timestamp = now,
                    m_mood_score = mood_score, m_mood_notes = mood_notes\<rparr>],
                seq = seq (mood_entries d) + 1\<rparr>\<rparr>)
      else Inl OverflowError)"
  by (simp add: insert_mood_entry_def insert_row_def)

lemma mood_tracker_page_eq:
  "mood_tracker_page user_id mood_score mood_notes log_mood now d =
     (if log_mood then
        (case insert_mood_entry user_id mood_score mood_notes now d of
           Inl e \<Rightarrow> Inl e
         | Inr d' \<Rightarrow>
             Inr (d', [Header (''Mood Tracker '' @ faces), Write ''How are you feeling today?'',
                       Success ''Mood logged successfully!''] @ mood_history user_id d'))
      else Inr (d, [Header (''Mood Tracker '' @ faces), Write ''How are you feeling today?''] @
                   mood_history user_id d))"
  by (simp add: mood_tracker_page_def Let_def split: sum.splits)

lemma mood_tracker_page_run:
  assumes "mood_tracker_page user_id mood_score mood_notes log_mood now d = Inr (d', out)"
  shows "users d' = users d"
    and "journal_entries d' = journal_entries d"
    and "screening_results d' = screening_results d"
    and "rows (mood_entries d') =
           rows (mood_entries d) @
             (if log_mood
              then [\<lparr>m_id = seq (mood_entries d) + 1, m_user_id = user_id, m_timestamp = now,
                      m_mood_score = mood_score, m_mood_notes = mood_notes\<rparr>]
              else [])"
  using assms
  by (auto simp: mood_tracker_page_eq insert_mood_entry_eq split: if_splits)

lemma insert_screening_result_run:
  assumes "insert_screening_result user_id test_type total_score category now d = Inr d'"
  shows "users d' = users d"
    and "journal_entries d' = journal_entries d"
    and "mood_entries d' = mood_entries d"
  using assms by (auto simp: insert_screening_result_def split: if_splits)

lemma screening_page_run_tables:
  assumes "screening_page user_id test radio calculate now d = Inr (d', out)"
  shows "users d' = users d"
    and "journal_entries d' = journal_entries d"
    and "mood_entries d' = mood_entries d"
  using assms
  by (auto simp: screening_page_def phq9_calculate_eq gad7_calculate_eq show_and_save_eq
      split: if_splits sum.splits)

section \<open>Invariants of the reachable databases\<close>

lemma signup_users_unique:
  assumes "users_unique d" and "signup sha256 username password d = Inr (ok, d')"
  shows "users_unique d'"
  using assms by (auto simp: users_unique_def signup_cases split: if_splits)

lemma reachable_users_unique:
  "reachable sha256 d \<Longrightarrow> users_unique d"
proof (induction rule: reachable.induct)
  case reachable_init
  show ?case by (simp add: users_unique_def init_db_def empty_table_def)
next
  case (reachable_signup d username password ok d')
  then show ?case by (auto intro: signup_users_unique)
next
  case (reachable_journal d user_id entry save_entry now)
  then show ?case by (simp add: users_unique_def journal_page_db)
next
  case (reachable_mood d mood_score user_id mood_notes log_mood now d' out)
  from mood_tracker_page_run(1) [OF reachable_mood.hyps(3)] reachable_mood.IH
  show ?case by (simp add: users_unique_def)
next
  case (reachable_screening d user_id test radio calculate now d' out)
  from screening_page_run_tables(1) [OF reachable_screening.hyps(2)] reachable_screening.IH
  show ?case by (simp add: users_unique_def)
qed


section \<open>Mood scores\<close>



section \<open>Signing up with a taken username\<close>

text \<open>
  Claim C7. When the username is already in the \<open>users\<close> table, \<open>signup\<close> with any
  password returns \<open>False\<close> and leaves the whole database as it was, so the existing row
  and its password hash are unchanged.
\<close>

theorem signup_duplicate_username:
  assumes "username \<in> set (map u_username (rows (users d)))"
  shows "signup sha256 username password d = Inr (False, d)"
  using assms by (simp add: signup_cases)

theorem signup_duplicate_username_witness:
  "signup id ''alice'' ''first'' init_db =
     Inr (True, init_db\<lparr>users :=
       \<lparr>rows = [\<lparr>u_id = 1, u_username = ''alice'', u_password = ''first''\<rparr>], seq = 1\<rparr>\<rparr>)
   \<and> signup id ''alice'' ''second''
       (init_db\<lparr>users :=
         \<lparr>rows = [\<lparr>u_id = 1, u_username = ''alice'', u_password = ''first''\<rparr>], seq = 1\<rparr>\<rparr>) =
     Inr (False, init_db\<lparr>users :=
       \<lparr>rows = [\<lparr>u_id = 1, u_username = ''alice'', u_password = ''first''\<rparr>], seq = 1\<rparr>\<rparr>)"
proof -
  have 1: "signup id ''alice'' ''first'' init_db =
     Inr (True, init_db\<lparr>users :=
       \<lparr>rows = [\<lparr>u_id = 1, u_username = ''alice'', u_password = ''first''\<rparr>], seq = 1\<rparr>\<rparr>)"
    by (simp add: signup_cases init_db_def empty_table_def hash_password_def)
  have 2: "''alice'' \<in> set (map u_username (rows (users (init_db\<lparr>users :=
       \<lparr>rows = [\<lparr>u_id = 1, u_username = ''alice'', u_password = ''first''\<rparr>], seq = 1\<rparr>\<rparr>))))"
    by simp
  from 1 signup_duplicate_username [OF 2, of id "''second''"] show ?thesis
    by simp
qed

section \<open>Logging in\<close>

lemma find_unique:
  assumes "distinct (map f xs)" and "r \<in> set xs"
  shows "find (\<lambda>x. f x = f r \<and> P x) xs = (if P r then Some r else None)"
  using assms
proof (induction xs)
  case Nil
  then show ?case by simp
next
  case (Cons x xs)
  show ?case
  proof (cases "x = r")
    case True
    with Cons.prems(1) have "f r \<notin> f ` set xs" by simp
    then have "\<forall>y\<in>set xs. f y \<noteq> f r" by (metis imageI)
    then have "find (\<lambda>x. f x = f r \<and> P x) xs = None"
      by (auto simp: find_None_iff)
    with True show ?thesis by simp
  next
    case False
    with Cons.prems have "r \<in> set xs" "f x \<noteq> f r" by auto
    with Cons show ?thesis by simp
  qed
qed

lemma login_row:
  assumes "users_unique d" and "r \<in> set (rows (users d))"
  shows "login sha256 (u_username r) password d =
           (if u_password r = hash_password sha256 password then Some r else None)"
  using assms unfolding login_def users_unique_def by (rule find_unique)

lemma login_unknown:
  assumes "username \<notin> set (map u_username (rows (users d)))"
  shows "login sha256 username password d = None"
  using assms by (auto simp: login_def find_None_iff)

text \<open>
  Claim C8. In every database whose usernames are unique, as the table constraint has it:
  \<open>login\<close> with the username of a stored row returns that very row (and so its stored
  id) when the hash of the password given equals the stored hash, and \<open>None\<close> when it
  differs; \<open>login\<close> with a username that is not stored returns \<open>None\<close> too, the same
  value. After a successful \<open>signup\<close>, \<open>login\<close> with the same username and password
  returns the new row with the id that AUTOINCREMENT gave it, and a password with another
  hash returns \<open>None\<close>.
\<close>

theorem login_uniform_failure:
  assumes "users_unique d"
  shows "(\<forall>r\<in>set (rows (users d)).
            login sha256 (u_username r) password d =
              (if hash_password sha256 password = u_password r then Some r else None))
    \<and> (username \<notin> set (map u_username (rows (users d))) \<longrightarrow>
          login sha256 username password d = None)
    \<and> (\<forall>d'. signup sha256 username password d = Inr (True, d') \<longrightarrow>
          login sha256 username password d' =
            Some \<lparr>u_id = seq (users d) + 1, u_username = username,
                  u_password = hash_password sha256 password\<rparr>
          \<and> (hash_password sha256 password' \<noteq> hash_password sha256 password \<longrightarrow>
               login sha256 username password' d' = None))"
proof (intro conjI ballI impI allI)
  fix r assume "r \<in> set (rows (users d))"
  from login_row [OF assms this]
  show "login sha256 (u_username r) password d =
          (if hash_password sha256 password = u_password r then Some r else None)"
    by auto
next
  assume "username \<notin> set (map u_username (rows (users d)))"
  then show "login sha256 username password d = None"
    by (rule login_unknown)
next
  fix d' assume s: "signup sha256 username password d = Inr (True, d')"
  let ?r = "\<lparr>u_id = seq (users d) + 1, u_username = username,
             u_password = hash_password sha256 password\<rparr>"
  from assms s have unique': "users_unique d'" by (rule signup_users_unique)
  from s have "?r \<in> set (rows (users d'))"
    by (auto simp: signup_cases split: if_splits)
  from login_row [OF unique' this]
  have l: "\<And>pw. login sha256 username pw d' =
          (if hash_password sha256 password = hash_password sha256 pw then Some ?r else None)"
    by simp
  from l show "login sha256 username password d' = Some ?r" by simp
  assume "hash_password sha256 password' \<noteq> hash_password sha256 password"
  with l show "login sha256 username password' d' = None" by simp
qed

theorem login_uniform_failure_witness:
  "users_unique init_db
   \<and> signup id ''alice'' ''first'' init_db =
        Inr (True, init_db\<lparr>users :=
          \<lparr>rows = [\<lparr>u_id = 1, u_username = ''alice'', u_password = ''first''\<rparr>], seq = 1\<rparr>\<rparr>)
   \<and> login id ''alice'' ''first'' (init_db\<lparr>users :=
          \<lparr>rows = [\<lparr>u_id = 1, u_username = ''alice'', u_password = ''first''\<rparr>], seq = 1\<rparr>\<rparr>)
        = Some \<lparr>u_id = 1, u_username = ''alice'', u_password = ''first''\<rparr>
   \<and> login id ''alice'' ''wrong'' (init_db\<lparr>users :=
          \<lparr>rows = [\<lparr>u_id = 1, u_username = ''alice'', u_password = ''first''\<rparr>], seq = 1\<rparr>\<rparr>)
        = None
   \<and> login id ''alice'' ''first'' init_db = None"
proof -
  let ?d1 = "init_db\<lparr>users :=
          \<lparr>rows = [\<lparr>u_id = 1, u_username = ''alice'', u_password = ''first''\<rparr>], seq = 1\<rparr>\<rparr>"
  have u: "users_unique init_db"
    by (simp add: users_unique_def init_db_def empty_table_def)
  have s: "signup id ''alice'' ''first'' init_db = Inr (True, ?d1)"
    by (simp add: signup_cases init_db_def empty_table_def hash_password_def)
  have absent: "''alice'' \<notin> set (map u_username (rows (users init_db)))"
    by (simp add: init_db_def empty_table_def)
  have differ: "hash_password id ''wrong'' \<noteq> hash_password id ''first''"
    by (simp add: hash_password_def)
  have seq0: "seq (users init_db) + 1 = 1" "hash_password id ''first'' = ''first''"
    by (simp_all add: init_db_def empty_table_def hash_password_def)
  from login_uniform_failure [OF u, of id "''first''" "''alice''" "''wrong''"]
    s absent differ seq0 u
  show ?thesis by simp
qed

section \<open>Listings per user\<close>

lemma set_order_by_desc [simp]: "set (order_by_desc key xs) = set xs"
  by (simp add: order_by_desc_def)

lemma set_journal_rows_for:
  "set (journal_rows_for user_id d) =
     {r \<in> set (rows (journal_entries d)). j_user_id r = user_id}"
  by (auto simp: journal_rows_for_def)

lemma set_mood_rows_for:
  "set (mood_rows_for user_id d) =
     {r \<in> set (rows (mood_entries d)). m_user_id r = user_id}"
  by (auto simp: mood_rows_for_def)

lemma journal_rows_for_other_insert:
  "a \<noteq> b \<Longrightarrow> journal_rows_for b (insert_journal_entry a entry now d) = journal_rows_for b d"
  by (simp add: journal_rows_for_def)

lemma journal_page_listing:
  "snd (journal_page user_id entry False now d) =
     [Header (''My Private Journal '' @ writing_hand),
      Write ''Reflect on your thoughts and feelings. This is a safe space for you.'',
      Subheader ''Past Entries''] @
     (if select_journal_entries user_id d = []
      then [Info (''You haven'' @ [CHR 0x27] @ ''t written any journal entries yet.'')]
      else map (\<lambda>(ts, txt). Expander (''Entry from '' @ ts) txt)
             (select_journal_entries user_id d))"
  by (simp add: journal_page_def Let_def)

lemma select_journal_entries_cong:
  "journal_entries d' = journal_entries d \<Longrightarrow>
   select_journal_entries b d' = select_journal_entries b d"
  by (simp add: select_journal_entries_def journal_rows_for_def)

lemma select_mood_data_cong:
  "mood_entries d' = mood_entries d \<Longrightarrow> select_mood_data b d' = select_mood_data b d"
  by (simp add: select_mood_data_def mood_rows_for_def)

lemma select_mood_data_other:
  assumes "a \<noteq> b"
      and "mood_tracker_page a mood_score mood_notes log_mood now d = Inr (d', out)"
  shows "select_mood_data b d' = select_mood_data b d"
  using assms(1) mood_tracker_page_run(4) [OF assms(2)]
  by (simp add: select_mood_data_def mood_rows_for_def)

text \<open>
  Claim C9. The two listing queries of the program, on \<open>journal_entries\<close> and on
  \<open>mood_entries\<close>, return exactly the stored rows whose \<open>user_id\<close> is the requesting
  user's. For distinct user ids \<open>a\<close> and \<open>b\<close>: whatever \<open>a\<close> saves on the journal page or
  logs on the mood page, and whatever screening result is saved for \<open>a\<close>, the listings
  for \<open>b\<close> and what the two pages show to \<open>b\<close> stay the same. (The program has no query
  that lists \<open>screening_results\<close>.)
\<close>

theorem listings_show_own_rows_only:
  assumes "a \<noteq> b"
  shows "set (journal_rows_for b d) = {r \<in> set (rows (journal_entries d)). j_user_id r = b}
    \<and> set (mood_rows_for b d) = {r \<in> set (rows (mood_entries d)). m_user_id r = b}
    \<and> select_journal_entries b (fst (journal_page a entry save_entry now d)) =
         select_journal_entries b d
    \<and> snd (journal_page b entry' False now' (fst (journal_page a entry save_entry now d))) =
         snd (journal_page b entry' False now' d)
    \<and> (\<forall>d' out. mood_tracker_page a mood_score mood_notes log_mood now d = Inr (d', out) \<longrightarrow>
          select_mood_data b d' = select_mood_data b d
          \<and> select_journal_entries b d' = select_journal_entries b d
          \<and> (\<exists>out'. mood_tracker_page b mood_score' mood_notes' False now' d' = Inr (d', out')
                   \<and> mood_tracker_page b mood_score' mood_notes' False now' d = Inr (d, out')))
    \<and> (\<forall>d'. insert_screening_result a test_type total_score category now d = Inr d' \<longrightarrow>
          select_journal_entries b d' = select_journal_entries b d
          \<and> select_mood_data b d' = select_mood_data b d)
    \<and> (\<forall>d' out. screening_page a test radio calculate now d = Inr (d', out) \<longrightarrow>
          select_journal_entries b d' = select_journal_entries b d
          \<and> select_mood_data b d' = select_mood_data b d)"
proof (intro conjI allI impI)
  show "set (journal_rows_for b d) = {r \<in> set (rows (journal_entries d)). j_user_id r = b}"
    by (rule set_journal_rows_for)
  show "set (mood_rows_for b d) = {r \<in> set (rows (mood_entries d)). m_user_id r = b}"
    by (rule set_mood_rows_for)
  show j: "select_journal_entries b (fst (journal_page a entry save_entry now d)) =
             select_journal_entries b d"
    using assms
    by (simp add: select_journal_entries_def journal_page_db journal_rows_for_other_insert)
  show "snd (journal_page b entry' False now' (fst (journal_page a entry save_entry now d))) =
          snd (journal_page b entry' False now' d)"
    by (simp only: journal_page_listing j)
next
  fix d' out
  assume run: "mood_tracker_page a mood_score mood_notes log_mood now d = Inr (d', out)"
  from assms run show m: "select_mood_data b d' = select_mood_data b d"
    by (rule select_mood_data_other)
  from mood_tracker_page_run(2) [OF run]
  show "select_journal_entries b d' = select_journal_entries b d"
    by (rule select_journal_entries_cong)
  show "\<exists>out'. mood_tracker_page b mood_score' mood_notes' False now' d' = Inr (d', out')
             \<and> mood_tracker_page b mood_score' mood_notes' False now' d = Inr (d, out')"
    by (simp add: mood_tracker_page_eq mood_history_def m)
next
  fix d'
  assume ins: "insert_screening_result a test_type total_score category now d = Inr d'"
  from insert_screening_result_run(2) [OF ins]
  show "select_journal_entries b d' = select_journal_entries b d"
    by (rule select_journal_entries_cong)
  from insert_screening_result_run(3) [OF ins]
  show "select_mood_data b d' = select_mood_data b d"
    by (rule select_mood_data_cong)
next
  fix d' out
  assume run: "screening_page a test radio calculate now d = Inr (d', out)"
  from screening_page_run_tables(2) [OF run]
  show "select_journal_entries b d' = select_journal_entries b d"
    by (rule select_journal_entries_cong)
  from screening_page_run_tables(3) [OF run]
  show "select_mood_data b d' = select_mood_data b d"
    by (rule select_mood_data_cong)
qed

theorem listings_show_own_rows_only_witness:
  "(1::user_id) \<noteq> 2
   \<and> select_journal_entries 1 (fst (journal_page 1 ''mine'' True ''2024-01-01 00:00:00'' init_db))
       = [(''2024-01-01 00:00:00'', ''mine'')]
   \<and> select_journal_entries 2 (fst (journal_page 1 ''mine'' True ''2024-01-01 00:00:00'' init_db))
       = []
   \<and> (\<exists>d' out. mood_tracker_page 1 4 '''' True ''2024-01-01 00:00:00'' init_db = Inr (d', out)
         \<and> select_mood_data 1 d' = [(''2024-01-01 00:00:00'', 4)]
         \<and> select_mood_data 2 d' = [])
   \<and> (\<exists>d'. insert_screening_result 1 ''PHQ-9'' 12 ''Moderate Depression''
               ''2024-01-01 00:00:00'' init_db = Inr d'
         \<and> select_journal_entries 2 d' = [] \<and> select_mood_data 2 d' = [])"
proof -
  have ne: "(1::user_id) \<noteq> 2" by simp
  have own: "select_journal_entries 1 (fst (journal_page 1 ''mine'' True ''2024-01-01 00:00:00'' init_db))
       = [(''2024-01-01 00:00:00'', ''mine'')]"
    by (simp add: journal_page_db select_journal_entries_def journal_rows_for_def
        order_by_desc_def init_db_def empty_table_def insert_journal_entry_def insert_row_def)
  have none: "select_journal_entries 2 init_db = []" "select_mood_data 2 init_db = []"
    by (simp_all add: select_journal_entries_def journal_rows_for_def order_by_desc_def
        select_mood_data_def mood_rows_for_def init_db_def empty_table_def)
  obtain dm outm where runm:
    "mood_tracker_page 1 4 '''' True ''2024-01-01 00:00:00'' init_db = Inr (dm, outm)"
    by (simp add: mood_tracker_page_eq insert_mood_entry_eq sqlite_int_def)
  have ownm: "select_mood_data 1 dm = [(''2024-01-01 00:00:00'', 4)]"
    using mood_tracker_page_run(4) [OF runm]
    by (simp add: select_mood_data_def mood_rows_for_def init_db_def empty_table_def)
  obtain ds where ins:
    "insert_screening_result 1 ''PHQ-9'' 12 ''Moderate Depression''
       ''2024-01-01 00:00:00'' init_db = Inr ds"
    by (simp add: insert_screening_result_def sqlite_int_def)
  from listings_show_own_rows_only
         [OF ne, of init_db "''mine''" True "''2024-01-01 00:00:00''" _ _ 4 "''''" True
            _ _ "''PHQ-9''" 12 "''Moderate Depression''"]
    own none runm ownm ins ne
  show ?thesis by auto
qed

section \<open>Saving a journal entry\<close>

text \<open>
  Claim C10. Pressing Save Entry with an empty text leaves the database unchanged and shows
  the warning "Please write something before saving." above the past entries. In general
  a run of the journal page adds a row, exactly one, with the text as given, if and only if
  Save Entry was pressed with a non-empty text.
\<close>

theorem empty_journal_entry_not_saved:
  "journal_page user_id [] True now d =
     (d, [Header (''My Private Journal '' @ writing_hand),
          Write ''Reflect on your thoughts and feelings. This is a safe space for you.'',
          Warning ''Please write something before saving.'',
          Subheader ''Past Entries''] @
         (if select_journal_entries user_id d = []
          then [Info (''You haven'' @ [CHR 0x27] @ ''t written any journal entries yet.'')]
          else map (\<lambda>(ts, txt). Expander (''Entry from '' @ ts) txt)
                 (select_journal_entries user_id d)))
   \<and> fst (journal_page user_id entry save_entry now d) =
       (if save_entry \<and> entry \<noteq> [] then insert_journal_entry user_id entry now d else d)
   \<and> rows (journal_entries (insert_journal_entry user_id entry now d)) =
       rows (journal_entries d) @
         [\<lparr>j_id = seq (journal_entries d) + 1, j_user_id = user_id, j_timestamp = now,
           j_entry_text = entry\<rparr>]
   \<and> (rows (journal_entries (fst (journal_page user_id entry save_entry now d))) \<noteq>
        rows (journal_entries d)) = (save_entry \<and> entry \<noteq> [])"
  by (simp add: journal_page_db) (simp add: journal_page_def Let_def)

end
